theory Spec2Isabelle
  imports Complex_Main "HOL-Library.Char_ord" "HOL-Library.List_Lexorder" "HOL-Library.Code_Target_Nat"
begin

section \<open>Python values\<close>

text \<open>
  The script \<^verbatim>\<open>integration/compare_clan_responses.py\<close> fetches one clan record through
  two clients and compares the two decoded JSON payloads. A payload is a Python value
  built from \<^verbatim>\<open>dict\<close>, \<^verbatim>\<open>list\<close>, \<^verbatim>\<open>str\<close>, \<^verbatim>\<open>int\<close>, \<^verbatim>\<open>float\<close>,
  \<^verbatim>\<open>bool\<close> and \<^verbatim>\<open>None\<close>.

  \<^item> A \<^verbatim>\<open>dict\<close> is an association list in insertion order; a Python dict never
    holds a key twice, so the lists that stand for real dicts have distinct keys.
  \<^item> A \<^verbatim>\<open>str\<close> is a \<^typ>\<open>string\<close>; a character stands for the code point of the
    same number, so the model covers the code points below 256.
  \<^item> An \<^verbatim>\<open>int\<close> is unbounded, as in Python.
  \<^item> A \<^verbatim>\<open>float\<close> is an IEEE 754 double: \<open>Finite s m e\<close> is
    \<open>(-1)\<^sup>s * m * 2\<^sup>e\<close>, a double when \<open>m < 2\<^sup>5\<^sup>3\<close>, \<open>-1074 \<le> e \<le> 971\<close> and
    \<open>2\<^sup>5\<^sup>2 \<le> m\<close> unless \<open>e = -1074\<close>.
  \<^item> Values are compared by value: object identity (which lets CPython call a container
    equal to itself without comparing a NaN inside it) is not part of the model.
  \<^item> The interpreter's recursion limit is not part of the model either.
\<close>

datatype pyfloat = Finite bool nat int | Inf bool | NaN

datatype pyval =
    PNone
  | PBool bool
  | PInt int
  | PFloat pyfloat
  | PStr string
  | PList "pyval list"
  | PDict "(string \<times> pyval) list"

text \<open>
  What ends a call before it returns: \<^verbatim>\<open>raise SystemExit(msg)\<close> ends the run with the
  message \<open>msg\<close>, and an exception raised inside a library call that the script does not
  catch goes up to the caller as it is. Of the library's exceptions the script tells
  \<^verbatim>\<open>json.JSONDecodeError\<close> from all others (given by class name and text).
\<close>

datatype pyexc = JSONDecodeError string | OtherException string string

datatype error = SystemExit string | Uncaught pyexc

subsection \<open>Text of numbers\<close>

text \<open>
  \<^verbatim>\<open>repr\<close> of an \<^verbatim>\<open>int\<close> is its decimal text. \<^verbatim>\<open>repr\<close> of a finite
  \<^verbatim>\<open>float\<close> is the shortest decimal text that reads back as the same double (ties
  between two shortest texts go to the nearer one), printed with an exponent when the
  decimal point would lie more than 16 digits right or more than 3 zeros left of the
  first digit.
\<close>

definition digit_char :: "nat \<Rightarrow> char" where
  "digit_char d = ''0123456789abcdef'' ! (d mod 16)"

fun show_nat :: "nat \<Rightarrow> string" where
  "show_nat n = (if n < 10 then [digit_char n] else show_nat (n div 10) @ [digit_char (n mod 10)])"

declare show_nat.simps [simp del]

definition show_int :: "int \<Rightarrow> string" where
  "show_int i = (if i < 0 then CHR ''-'' # show_nat (nat (- i)) else show_nat (nat i))"

definition pow2 :: "int \<Rightarrow> rat" where
  "pow2 e = (if 0 \<le> e then 2 ^ nat e else 1 / 2 ^ nat (- e))"

definition pow10 :: "int \<Rightarrow> rat" where
  "pow10 q = (if 0 \<le> q then 10 ^ nat q else 1 / 10 ^ nat (- q))"

definition mag :: "nat \<Rightarrow> int \<Rightarrow> rat" where
  "mag m e = of_nat m * pow2 e"

definition float_value :: "bool \<Rightarrow> nat \<Rightarrow> int \<Rightarrow> rat" where
  "float_value s m e = (if s then - mag m e else mag m e)"

text \<open>\<open>floor_log10 v\<close> is the \<open>k\<close> with \<open>10\<^sup>k \<le> v < 10\<^sup>k\<^sup>+\<^sup>1\<close>, for \<open>0 < v\<close>.\<close>

definition floor_log10 :: "rat \<Rightarrow> int" where
  "floor_log10 v =
     (if 1 \<le> v then int (length (show_nat (nat \<lfloor>v\<rfloor>))) - 1
      else let w = 1 / v; D = length (show_nat (nat \<lfloor>w\<rfloor>))
           in if w = 10 ^ (D - 1) then - int (D - 1) else - int D)"

text \<open>
  The decimal texts that read back as \<open>m * 2\<^sup>e\<close> under round-to-nearest-even are
  those between the midpoints to the neighbouring doubles, the midpoints included when
  \<open>m\<close> is even.
\<close>

definition round_lo :: "nat \<Rightarrow> int \<Rightarrow> rat" where
  "round_lo m e =
     (of_nat m - (if m = 2 ^ 52 \<and> - 1074 < e then 1 / 4 else 1 / 2)) * pow2 e"

definition round_hi :: "nat \<Rightarrow> int \<Rightarrow> rat" where
  "round_hi m e = (of_nat m + 1 / 2) * pow2 e"

definition reads_back :: "nat \<Rightarrow> int \<Rightarrow> rat \<Rightarrow> bool" where
  "reads_back m e c =
     (if even m then round_lo m e \<le> c \<and> c \<le> round_hi m e
      else round_lo m e < c \<and> c < round_hi m e)"

text \<open>
  \<open>shortest fuel n m e\<close> tries \<open>n\<close>, \<open>n + 1\<close>, ... significant digits and returns
  the first \<open>(d, q)\<close> with \<open>d * 10\<^sup>q\<close> reading back as \<open>m * 2\<^sup>e\<close>; 17 digits always
  suffice for a double.
\<close>

fun shortest :: "nat \<Rightarrow> nat \<Rightarrow> nat \<Rightarrow> int \<Rightarrow> nat \<times> int" where
  "shortest fuel n m e =
     (let v = mag m e;
          q = floor_log10 v - int n + 1;
          d = nat \<lfloor>v / pow10 q\<rfloor>;
          c1 = of_nat d * pow10 q;
          c2 = of_nat (Suc d) * pow10 q;
          i1 = reads_back m e c1;
          i2 = reads_back m e c2
      in if i1 \<and> i2 then
           (if v - c1 < c2 - v then (d, q)
            else if c2 - v < v - c1 then (Suc d, q)
            else if even d then (d, q) else (Suc d, q))
         else if i1 then (d, q)
         else if i2 then (Suc d, q)
         else (case fuel of
                 0 \<Rightarrow> if v - c1 \<le> c2 - v then (d, q) else (Suc d, q)
               | Suc fuel' \<Rightarrow> shortest fuel' (Suc n) m e))"

declare shortest.simps [simp del]

fun strip_zeros :: "nat \<Rightarrow> nat \<Rightarrow> int \<Rightarrow> nat \<times> int" where
  "strip_zeros 0 d q = (d, q)"
| "strip_zeros (Suc k) d q =
     (if d \<noteq> 0 \<and> d mod 10 = 0 then strip_zeros k (d div 10) (q + 1) else (d, q))"

definition float_digits :: "nat \<Rightarrow> int \<Rightarrow> string \<times> int" where
  "float_digits m e =
     (case shortest 16 1 m e of (d0, q0) \<Rightarrow>
        (case strip_zeros (length (show_nat d0)) d0 q0 of (d, q) \<Rightarrow>
           (show_nat d, q + int (length (show_nat d)))))"

definition float_repr_finite :: "bool \<Rightarrow> nat \<Rightarrow> int \<Rightarrow> string" where
  "float_repr_finite s m e =
     (if s then ''-'' else '''') @
     (if m = 0 then ''0.0''
      else case float_digits m e of (ds, decpt) \<Rightarrow>
        if decpt \<le> - 4 \<or> 16 < decpt then
          (let x = decpt - 1
           in take 1 ds @ (if 1 < length ds then ''.'' @ drop 1 ds else '''') @ ''e''
              @ (if x < 0 then ''-'' else ''+'')
              @ (if \<bar>x\<bar> < 10 then ''0'' else '''') @ show_nat (nat \<bar>x\<bar>))
        else if decpt \<le> 0 then ''0.'' @ replicate (nat (- decpt)) CHR ''0'' @ ds
        else if int (length ds) \<le> decpt then
          ds @ replicate (nat decpt - length ds) CHR ''0'' @ ''.0''
        else take (nat decpt) ds @ ''.'' @ drop (nat decpt) ds)"

fun float_repr :: "pyfloat \<Rightarrow> string" where
  "float_repr (Finite s m e) = float_repr_finite s m e"
| "float_repr (Inf s) = (if s then ''-inf'' else ''inf'')"
| "float_repr NaN = ''nan''"


text \<open>\<^verbatim>\<open>json.dumps\<close> writes a float with \<^verbatim>\<open>float.__repr__\<close>, and the three
  non-finite floats as \<^verbatim>\<open>NaN\<close>, \<^verbatim>\<open>Infinity\<close> and \<^verbatim>\<open>-Infinity\<close>.\<close>

definition json_float :: "pyfloat \<Rightarrow> string" where
  "json_float f =
     (case f of
        NaN \<Rightarrow> ''NaN''
      | Inf s \<Rightarrow> (if s then ''-Infinity'' else ''Infinity'')
      | Finite s m e \<Rightarrow> float_repr f)"

subsection \<open>Text of strings\<close>

text \<open>
  \<^verbatim>\<open>json.dumps\<close> (with \<^verbatim>\<open>ensure_ascii\<close>) writes a string in double quotes,
  escaping the quote, the backslash and every character outside \<^verbatim>\<open>' '..'~'\<close>.
  \<^verbatim>\<open>repr\<close> of a string uses single quotes unless the string holds a single and no
  double quote, and escapes the quote, the backslash and the unprintable characters.
\<close>

definition hex2 :: "char \<Rightarrow> string" where
  "hex2 c = [digit_char (of_char c div 16), digit_char (of_char c mod 16)]"

definition json_escape :: "char \<Rightarrow> string" where
  "json_escape c =
     (if c = CHR 0x22 then [CHR 0x5C, CHR 0x22]
      else if c = CHR 0x5C then [CHR 0x5C, CHR 0x5C]
      else if c = CHR 0x0A then [CHR 0x5C, CHR ''n'']
      else if c = CHR 0x0D then [CHR 0x5C, CHR ''r'']
      else if c = CHR 0x09 then [CHR 0x5C, CHR ''t'']
      else if c = CHR 0x08 then [CHR 0x5C, CHR ''b'']
      else if c = CHR 0x0C then [CHR 0x5C, CHR ''f'']
      else if (0x20 :: nat) \<le> of_char c \<and> (of_char c :: nat) \<le> 0x7E then [c]
      else [CHR 0x5C, CHR ''u'', CHR ''0'', CHR ''0''] @ hex2 c)"

definition encode_basestring_ascii :: "string \<Rightarrow> string" where
  "encode_basestring_ascii s = [CHR 0x22] @ concat (map json_escape s) @ [CHR 0x22]"

definition isprintable :: "char \<Rightarrow> bool" where
  "isprintable c =
     (let n = (of_char c :: nat)
      in 0x20 \<le> n \<and> n < 0x7F \<or> 0xA0 < n \<and> n \<noteq> 0xAD)"

definition repr_escape :: "char \<Rightarrow> char \<Rightarrow> string" where
  "repr_escape quote c =
     (if c = quote \<or> c = CHR 0x5C then [CHR 0x5C, c]
      else if c = CHR 0x09 then [CHR 0x5C, CHR ''t'']
      else if c = CHR 0x0A then [CHR 0x5C, CHR ''n'']
      else if c = CHR 0x0D then [CHR 0x5C, CHR ''r'']
      else if isprintable c then [c]
      else [CHR 0x5C, CHR ''x''] @ hex2 c)"

definition str_repr :: "string \<Rightarrow> string" where
  "str_repr s =
     (let quote = (if CHR 0x27 \<in> set s \<and> CHR 0x22 \<notin> set s then CHR 0x22 else CHR 0x27)
      in [quote] @ concat (map (repr_escape quote) s) @ [quote])"

fun join :: "string \<Rightarrow> string list \<Rightarrow> string" where
  "join sep [] = []"
| "join sep [x] = x"
| "join sep (x # y # ys) = x @ sep @ join sep (y # ys)"

section \<open>Equality, types and repr of values\<close>

text \<open>
  Python's \<^verbatim>\<open>==\<close> compares \<^verbatim>\<open>bool\<close>, \<^verbatim>\<open>int\<close> and \<^verbatim>\<open>float\<close> by numeric value
  (\<^verbatim>\<open>True == 1\<close>, \<^verbatim>\<open>1 == 1.0\<close>), exactly, and a NaN is equal to nothing. Two lists
  are equal when they have the same length and equal elements position by position;
  two dicts when they have the same number of keys and every key of the left is a key
  of the right with an equal value.
\<close>

datatype number = NInt int | NFloat pyfloat

fun as_number :: "pyval \<Rightarrow> number option" where
  "as_number (PBool b) = Some (NInt (if b then 1 else 0))"
| "as_number (PInt i) = Some (NInt i)"
| "as_number (PFloat f) = Some (NFloat f)"
| "as_number v = None"

fun float_eq :: "pyfloat \<Rightarrow> pyfloat \<Rightarrow> bool" where
  "float_eq (Finite s m e) (Finite s' m' e') = (float_value s m e = float_value s' m' e')"
| "float_eq (Inf s) (Inf s') = (s = s')"
| "float_eq f g = False"

fun float_eq_int :: "pyfloat \<Rightarrow> int \<Rightarrow> bool" where
  "float_eq_int (Finite s m e) i = (float_value s m e = of_int i)"
| "float_eq_int f i = False"

fun number_eq :: "number \<Rightarrow> number \<Rightarrow> bool" where
  "number_eq (NInt i) (NInt j) = (i = j)"
| "number_eq (NInt i) (NFloat g) = float_eq_int g i"
| "number_eq (NFloat f) (NInt j) = float_eq_int f j"
| "number_eq (NFloat f) (NFloat g) = float_eq f g"

lemma size_dict_value [termination_simp]:
  "(k, v) \<in> set kvs \<Longrightarrow> size v < Suc (size_list (size_prod (\<lambda>_. 0) size) kvs)"
  by (induction kvs) auto

fun py_eq :: "pyval \<Rightarrow> pyval \<Rightarrow> bool" where
  "py_eq (PDict a) (PDict b) =
     (length a = length b \<and>
      list_all (\<lambda>(k, v). case map_of b k of None \<Rightarrow> False | Some w \<Rightarrow> py_eq v w) a)"
| "py_eq (PList xs) (PList ys) = list_all2 py_eq xs ys"
| "py_eq PNone PNone = True"
| "py_eq (PStr s) (PStr t) = (s = t)"
| "py_eq a b =
     (case as_number a of
        None \<Rightarrow> False
      | Some x \<Rightarrow> (case as_number b of None \<Rightarrow> False | Some y \<Rightarrow> number_eq x y))"

text \<open>\<^verbatim>\<open>type(v)\<close> and \<^verbatim>\<open>type(v).__name__\<close>.\<close>

datatype pytype = TNoneType | TBool | TInt | TFloat | TStr | TList | TDict

fun py_type :: "pyval \<Rightarrow> pytype" where
  "py_type PNone = TNoneType"
| "py_type (PBool b) = TBool"
| "py_type (PInt i) = TInt"
| "py_type (PFloat f) = TFloat"
| "py_type (PStr s) = TStr"
| "py_type (PList xs) = TList"
| "py_type (PDict kvs) = TDict"

fun type_name :: "pytype \<Rightarrow> string" where
  "type_name TNoneType = ''NoneType''"
| "type_name TBool = ''bool''"
| "type_name TInt = ''int''"
| "type_name TFloat = ''float''"
| "type_name TStr = ''str''"
| "type_name TList = ''list''"
| "type_name TDict = ''dict''"

fun py_repr :: "pyval \<Rightarrow> string" where
  "py_repr PNone = ''None''"
| "py_repr (PBool b) = (if b then ''True'' else ''False'')"
| "py_repr (PInt i) = show_int i"
| "py_repr (PFloat f) = float_repr f"
| "py_repr (PStr s) = str_repr s"
| "py_repr (PList xs) = ''['' @ join '', '' (map py_repr xs) @ '']''"
| "py_repr (PDict kvs) =
     ''{'' @ join '', '' (map (\<lambda>(k, v). str_repr k @ '': '' @ py_repr v) kvs) @ ''}''"

section \<open>The canonical text\<close>

text \<open>
  \<open>json_dumps v\<close> is \<^verbatim>\<open>json.dumps(v, sort_keys=True)\<close>: the items of every dict in
  the order of their keys, \<^verbatim>\<open>", "\<close> between items and \<^verbatim>\<open>": "\<close> after a key.
\<close>

fun json_dumps :: "pyval \<Rightarrow> string" where
  "json_dumps PNone = ''null''"
| "json_dumps (PBool b) = (if b then ''true'' else ''false'')"
| "json_dumps (PInt i) = show_int i"
| "json_dumps (PFloat f) = json_float f"
| "json_dumps (PStr s) = encode_basestring_ascii s"
| "json_dumps (PList xs) = ''['' @ join '', '' (map json_dumps xs) @ '']''"
| "json_dumps (PDict kvs) =
     ''{'' @ join '', ''
              (map (\<lambda>(k, v). encode_basestring_ascii k @ '': '' @ json_dumps v)
                 (sort_key fst kvs)) @ ''}''"

section \<open>The comparator\<close>

text \<open>
  \<^verbatim>\<open>_compare_dicts\<close> and its two local functions. \<^verbatim>\<open>normalize\<close> rebuilds a dict
  without the keys that start with \<^verbatim>\<open>_\<close> or are in \<^verbatim>\<open>ignore_keys\<close>.
\<close>

definition ignore_keys :: "string set" where
  "ignore_keys = {''builderBaseRank'', ''status_code'', ''timestamp''}"

fun startswith :: "string \<Rightarrow> string \<Rightarrow> bool" where
  "startswith s [] = True"
| "startswith [] (p # ps) = False"
| "startswith (c # s) (p # ps) = (c = p \<and> startswith s ps)"

fun normalize :: "pyval \<Rightarrow> pyval" where
  "normalize (PDict kvs) =
     PDict (map (\<lambda>(k, v). (k, normalize v))
              (filter (\<lambda>(k, v). \<not> startswith k ''_'' \<and> k \<notin> ignore_keys) kvs))"
| "normalize (PList xs) = PList (map normalize xs)"
| "normalize v = v"

text \<open>
  \<^verbatim>\<open>find_difference(a, b, path)\<close> returns the description of the first difference, or
  the empty string. \<open>find_difference_keys\<close> is its loop over the sorted keys of both
  dicts and \<open>find_difference_items\<close> its loop over \<^verbatim>\<open>enumerate(zip(a, b))\<close>; the test
  \<^verbatim>\<open>if diff:\<close> is true of a string that is not empty.
\<close>

lemma size_map_of [termination_simp]:
  "map_of kvs k = Some v \<Longrightarrow> size v < size_list (size_prod (\<lambda>_. 0) size) kvs"
  by (induction kvs) (auto split: if_splits)

function find_difference :: "pyval \<Rightarrow> pyval \<Rightarrow> string \<Rightarrow> string"
  and find_difference_keys ::
    "(string \<times> pyval) list \<Rightarrow> (string \<times> pyval) list \<Rightarrow> string \<Rightarrow> string list \<Rightarrow> string"
  and find_difference_items :: "pyval list \<Rightarrow> pyval list \<Rightarrow> string \<Rightarrow> nat \<Rightarrow> string"
where
  "find_difference a b path =
     (if py_type a \<noteq> py_type b then
        path @ '': type mismatch '' @ type_name (py_type a) @ '' vs '' @ type_name (py_type b)
      else case (a, b) of
        (PDict x, PDict y) \<Rightarrow>
          find_difference_keys x y path
            (sorted_list_of_set (set (map fst x) \<union> set (map fst y)))
      | (PList xs, PList ys) \<Rightarrow>
          if length xs \<noteq> length ys then
            path @ '': list length '' @ show_nat (length xs) @ '' vs '' @ show_nat (length ys)
          else find_difference_items xs ys path 0
      | _ \<Rightarrow>
          if \<not> py_eq a b then
            path @ '': value mismatch '' @ py_repr a @ '' vs '' @ py_repr b
          else [])"
| "find_difference_keys x y path [] = []"
| "find_difference_keys x y path (key # keys) =
     (case map_of x key of
        None \<Rightarrow> path @ ''.'' @ key @ '': missing from Python payload''
      | Some xv \<Rightarrow>
          (case map_of y key of
             None \<Rightarrow> path @ ''.'' @ key @ '': missing from Java payload''
           | Some yv \<Rightarrow>
               (let diff = find_difference xv yv (path @ ''.'' @ key)
                in if diff \<noteq> [] then diff else find_difference_keys x y path keys)))"
| "find_difference_items [] ys path idx = []"
| "find_difference_items (xv # xs) [] path idx = []"
| "find_difference_items (xv # xs) (yv # ys) path idx =
     (let diff = find_difference xv yv (path @ ''['' @ show_nat idx @ '']'')
      in if diff \<noteq> [] then diff else find_difference_items xs ys path (Suc idx))"
  by pat_completeness auto

termination
  by (relation "inv_image (less_than <*lex*> less_than)
        (\<lambda>v. case v of
           Inl (a, b, p) \<Rightarrow> (size a, 0)
         | Inr (Inl (x, y, p, keys)) \<Rightarrow> (size_list (size_prod (\<lambda>_. 0) size) x, length keys)
         | Inr (Inr (xs, ys, p, i)) \<Rightarrow> (size_list size xs, 0))")
     (auto simp: size_map_of)

declare find_difference.simps [simp del]

text \<open>
  \<^verbatim>\<open>_compare_dicts(left, right)\<close> prints one line and returns (\<open>Inr\<close> of the line),
  or raises \<^verbatim>\<open>SystemExit\<close> (\<open>Inl\<close>).
\<close>

definition compare_dicts :: "pyval \<Rightarrow> pyval \<Rightarrow> error + string" where
  "compare_dicts left right =
     (let left' = normalize left;
          right' = normalize right
      in if py_eq left' right' then
           Inr ''Success: Python and Java responses match byte-for-byte.''
         else if json_dumps left' = json_dumps right' then
           Inr ''Success: Python and Java responses match after key normalization.''
         else
           Inl (SystemExit (''Mismatch detected between Python and Java payloads: ''
                            @ find_difference left' right' ''root'')))"

section \<open>Environment and the Java client\<close>

text \<open>\<^verbatim>\<open>_require_env(name)\<close>, over the environment as a map from names to values;
  \<^verbatim>\<open>if not value\<close> is true of \<^verbatim>\<open>None\<close> and of the empty string.\<close>

definition require_env :: "(string \<rightharpoonup> string) \<Rightarrow> string \<Rightarrow> error + string" where
  "require_env environ name =
     (case environ name of
        None \<Rightarrow> Inl (SystemExit (''Missing required environment variable: '' @ name))
      | Some v \<Rightarrow>
          if v = [] then Inl (SystemExit (''Missing required environment variable: '' @ name))
          else Inr v)"

text \<open>\<^verbatim>\<open>str.strip()\<close> removes the leading and trailing whitespace.\<close>

definition isspace :: "char \<Rightarrow> bool" where
  "isspace c =
     (let n = (of_char c :: nat)
      in 0x09 \<le> n \<and> n \<le> 0x0D \<or> 0x1C \<le> n \<and> n \<le> 0x20 \<or> n = 0x85 \<or> n = 0xA0)"

definition strip :: "string \<Rightarrow> string" where
  "strip s = rev (dropWhile isspace (rev (dropWhile isspace s)))"

text \<open>What \<^verbatim>\<open>subprocess.run(..., capture_output=True, text=True, check=False)\<close>
  returns once the process has exited.\<close>

record completed_process =
  returncode :: int
  stdout :: string
  stderr :: string

text \<open>
  The command line of \<^verbatim>\<open>_fetch_java_clan\<close>. \<open>os_name\<close> is \<^verbatim>\<open>os.name\<close> and
  \<open>joinpath root name\<close> is \<^verbatim>\<open>str(root / name)\<close>.
\<close>

definition gradle_command ::
  "string \<Rightarrow> ('path \<Rightarrow> string \<Rightarrow> string) \<Rightarrow> string \<Rightarrow> 'path \<Rightarrow> string list" where
  "gradle_command os_name joinpath tag repo_root =
     (let gradlew = (if os_name = ''nt'' then joinpath repo_root ''gradlew.bat''
                     else joinpath repo_root ''gradlew'')
      in [gradlew, ''-q'', '':coc-java:runClanRawDump'', ''--args='' @ tag])"

text \<open>
  \<^verbatim>\<open>_fetch_java_clan(tag, env, repo_root)\<close>. \<open>run\<close> is \<^verbatim>\<open>subprocess.run\<close>, which
  returns the completed process or raises (an \<^verbatim>\<open>OSError\<close> when the program cannot be
  started, a \<^verbatim>\<open>UnicodeDecodeError\<close> when the captured output is not text).
  \<open>json_loads\<close> is \<^verbatim>\<open>json.loads\<close>, which returns the decoded value or raises
  (\<^verbatim>\<open>JSONDecodeError\<close> on a text that is not JSON; \<^verbatim>\<open>ValueError\<close> or
  \<^verbatim>\<open>RecursionError\<close> on some texts that are). Only \<^verbatim>\<open>JSONDecodeError\<close> is caught.
  The result is the text written to the standard error stream, and the value returned
  or the exception raised.
\<close>

definition fetch_java_clan ::
  "(string list \<Rightarrow> 'env \<Rightarrow> 'path \<Rightarrow> pyexc + completed_process) \<Rightarrow> (string \<Rightarrow> pyexc + pyval) \<Rightarrow>
   string \<Rightarrow> ('path \<Rightarrow> string \<Rightarrow> string) \<Rightarrow> string \<Rightarrow> 'env \<Rightarrow> 'path \<Rightarrow>
   string \<times> (error + pyval)" where
  "fetch_java_clan run json_loads os_name joinpath tag env repo_root =
     (let cmd = gradle_command os_name joinpath tag repo_root
      in case run cmd env repo_root of
           Inl raised \<Rightarrow> ([], Inl (Uncaught raised))
         | Inr result \<Rightarrow>
             if returncode result \<noteq> 0 then
               (stderr result,
                Inl (SystemExit (''Java client execution failed with exit code ''
                                 @ show_int (returncode result))))
             else
               (let output = strip (stdout result)
                in if output = [] then
                     ([], Inl (SystemExit ''Java client did not return any JSON output''))
                   else
                     (case json_loads output of
                        Inr v \<Rightarrow> ([], Inr v)
                      | Inl (JSONDecodeError exc) \<Rightarrow>
                          ([], Inl (SystemExit (''Failed to parse Java client output as JSON: ''
                                               @ exc @ [CHR 0x0A] @ ''Output was:'' @ [CHR 0x0A]
                                               @ output)))
                      | Inl (OtherException cls msg) \<Rightarrow>
                          ([], Inl (Uncaught (OtherException cls msg))))))"



definition failed :: "pyexc \<Rightarrow> string list \<Rightarrow> unit \<Rightarrow> string \<Rightarrow> pyexc + completed_process" where
  "failed exc cmd env dir = Inl exc"


section \<open>Payloads that differ only in int versus float\<close>

text \<open>
  \<open>num_drift p q\<close>: the payloads \<open>p\<close> and \<open>q\<close> have the same shape, the same keys in
  the same order and the same scalars, but that where one holds an \<^verbatim>\<open>int\<close> the other
  may hold the \<^verbatim>\<open>float\<close> of exactly that value. They hold no NaN, which is equal to
  nothing, itself included.
\<close>

inductive num_drift :: "pyval \<Rightarrow> pyval \<Rightarrow> bool"
  and num_drift_items :: "(string \<times> pyval) list \<Rightarrow> (string \<times> pyval) list \<Rightarrow> bool"
where
  drift_int_float: "float_value s m e = of_int i \<Longrightarrow> num_drift (PInt i) (PFloat (Finite s m e))"
| drift_float_int: "float_value s m e = of_int i \<Longrightarrow> num_drift (PFloat (Finite s m e)) (PInt i)"
| drift_same_none: "num_drift PNone PNone"
| drift_same_bool: "num_drift (PBool b) (PBool b)"
| drift_same_int: "num_drift (PInt i) (PInt i)"
| drift_same_float: "f \<noteq> NaN \<Longrightarrow> num_drift (PFloat f) (PFloat f)"
| drift_same_str: "num_drift (PStr t) (PStr t)"
| drift_in_list: "list_all2 num_drift xs ys \<Longrightarrow> num_drift (PList xs) (PList ys)"
| drift_in_dict: "num_drift_items a b \<Longrightarrow> distinct (map fst a) \<Longrightarrow> num_drift (PDict a) (PDict b)"
| drift_no_items: "num_drift_items [] []"
| drift_item: "num_drift v w \<Longrightarrow> num_drift_items a b \<Longrightarrow> num_drift_items ((k, v) # a) ((k, w) # b)"

section \<open>Payloads that differ only under ignored fields\<close>

text \<open>
  The fields that the comparison is to leave out, by name: the three names of the
  ignore set, and every name that begins with an underscore.
\<close>

definition ignored_field :: "string \<Rightarrow> bool" where
  "ignored_field k =
     (k \<in> {''builderBaseRank'', ''status_code'', ''timestamp''} \<or> take 1 k = ''_'')"

text \<open>
  \<open>ignored_edit p p'\<close>: the payload \<open>p'\<close> is \<open>p\<close> but for the values under ignored
  fields, which may be changed, left out or put in, at any depth.
\<close>

inductive ignored_edit :: "pyval \<Rightarrow> pyval \<Rightarrow> bool"
  and ignored_edit_items :: "(string \<times> pyval) list \<Rightarrow> (string \<times> pyval) list \<Rightarrow> bool"
where
  edit_same: "ignored_edit v v"
| edit_in_list: "list_all2 ignored_edit xs ys \<Longrightarrow> ignored_edit (PList xs) (PList ys)"
| edit_in_dict: "ignored_edit_items a b \<Longrightarrow> ignored_edit (PDict a) (PDict b)"
| edit_no_items: "ignored_edit_items [] []"
| edit_kept: "ignored_edit v w \<Longrightarrow> ignored_edit_items a b \<Longrightarrow>
         ignored_edit_items ((k, v) # a) ((k, w) # b)"
| edit_mutated: "ignored_field k \<Longrightarrow> ignored_edit_items a b \<Longrightarrow>
            ignored_edit_items ((k, v) # a) ((k, w) # b)"
| edit_removed: "ignored_field k \<Longrightarrow> ignored_edit_items a b \<Longrightarrow> ignored_edit_items ((k, v) # a) b"
| edit_added: "ignored_field k \<Longrightarrow> ignored_edit_items a b \<Longrightarrow> ignored_edit_items a ((k, w) # b)"

section \<open>Normalization\<close>

lemma startswith_underscore: "startswith k ''_'' = (\<exists>r. k = CHR ''_'' # r)"
  by (cases k) auto

lemma map_of_normalize_items:
  "map_of (map (\<lambda>(k, v). (k, f v)) (filter (\<lambda>(k, v). P k) kvs)) =
   (\<lambda>k. if P k then map_option f (map_of kvs k) else None)"
  by (induction kvs) (auto simp: fun_eq_iff)

lemma kept_after_normalize:
  "filter (\<lambda>(k, v). \<not> startswith k ''_'' \<and> k \<notin> ignore_keys)
     (map (\<lambda>(k, v). (k, f v))
        (filter (\<lambda>(k, v). \<not> startswith k ''_'' \<and> k \<notin> ignore_keys) kvs))
   = map (\<lambda>(k, v). (k, f v))
       (filter (\<lambda>(k, v). \<not> startswith k ''_'' \<and> k \<notin> ignore_keys) kvs)"
  by (induction kvs) auto

lemma distinct_normalize_items:
  "distinct (map fst a) \<Longrightarrow>
   distinct (map fst (map (\<lambda>(k, v). (k, normalize v))
                        (filter (\<lambda>(k, v). \<not> startswith k ''_'' \<and> k \<notin> ignore_keys) a)))"
  by (induction a) (auto simp: image_iff)

text \<open>
  Claim C1. Normalization removes from a mapping exactly the keys that are in the set
  \<^verbatim>\<open>{"builderBaseRank", "status_code", "timestamp"}\<close> or begin with \<^verbatim>\<open>_\<close>: the keys of
  the result are the other keys, in their order, and each of them is bound to the
  normalized value it had. Since the values are normalized by the same function, this
  holds at every depth, also for the mappings inside a sequence. A sequence keeps its
  length and order and has every element normalized, and a scalar is returned as it is.
\<close>

theorem normalize_spec:
  "(\<exists>kept. normalize (PDict kvs) = PDict kept \<and>
      map fst kept =
        filter (\<lambda>k. \<not> (k \<in> {''builderBaseRank'', ''status_code'', ''timestamp''} \<or>
                       (\<exists>r. k = CHR ''_'' # r)))
          (map fst kvs) \<and>
      map_of kept =
        (\<lambda>k. if k \<in> {''builderBaseRank'', ''status_code'', ''timestamp''} \<or>
                 (\<exists>r. k = CHR ''_'' # r)
              then None else map_option normalize (map_of kvs k))) \<and>
   normalize (PList xs) = PList (map normalize xs) \<and>
   normalize PNone = PNone \<and> normalize (PBool b) = PBool b \<and> normalize (PInt i) = PInt i \<and>
   normalize (PFloat f) = PFloat f \<and> normalize (PStr s) = PStr s"
proof -
  let ?ign = "\<lambda>k. k \<in> {''builderBaseRank'', ''status_code'', ''timestamp''} \<or>
                  (\<exists>r. k = CHR ''_'' # r)"
  have keep: "(\<lambda>(k, v). \<not> startswith k ''_'' \<and> k \<notin> ignore_keys) =
              (\<lambda>(k, v :: pyval). \<not> ?ign k)"
    by (auto simp: fun_eq_iff startswith_underscore ignore_keys_def)
  let ?kept = "map (\<lambda>(k, v). (k, normalize v)) (filter (\<lambda>(k, v). \<not> ?ign k) kvs)"
  have 1: "normalize (PDict kvs) = PDict ?kept"
    by (simp only: normalize.simps keep)
  have 2: "map fst ?kept = filter (\<lambda>k. \<not> ?ign k) (map fst kvs)"
    by (induction kvs) auto
  have 3: "map_of ?kept = (\<lambda>k. if ?ign k then None else map_option normalize (map_of kvs k))"
    using map_of_normalize_items [of normalize "\<lambda>k. \<not> ?ign k" kvs] by (auto simp: fun_eq_iff)
  from 1 2 3 show ?thesis by simp
qed

text \<open>
  Claim C6. Normalization is idempotent: normalizing a normalized payload changes
  nothing.
\<close>

theorem normalize_idempotent: "normalize (normalize v) = normalize v"
proof (induction v rule: normalize.induct)
  case (1 kvs)
  let ?keep = "\<lambda>(k, v). \<not> startswith k ''_'' \<and> k \<notin> ignore_keys"
  have "map (\<lambda>(k, v). (k, normalize v)) (map (\<lambda>(k, v). (k, normalize v)) (filter ?keep kvs))
        = map (\<lambda>(k, v). (k, normalize v)) (filter ?keep kvs)"
    using 1 by auto
  then show ?case
    by (simp only: normalize.simps kept_after_normalize)
next
  case (2 xs)
  then show ?case by simp
qed simp_all

section \<open>The equivalence check\<close>

text \<open>
  Claim C2. Whenever the normalized payloads are not equal but have the same canonical
  text, the comparator prints the second success line and returns.
\<close>

theorem fallback_reports_equivalence:
  "\<not> py_eq (normalize left) (normalize right) \<Longrightarrow>
   json_dumps (normalize left) = json_dumps (normalize right) \<Longrightarrow>
   compare_dicts left right =
     Inr ''Success: Python and Java responses match after key normalization.''"
  by (simp add: compare_dicts_def Let_def)

theorem fallback_reports_equivalence_witness:
  "\<not> py_eq (normalize (PDict [(''ratio'', PFloat NaN), (''timestamp'', PInt 1)]))
           (normalize (PDict [(''ratio'', PFloat NaN)])) \<and>
   json_dumps (normalize (PDict [(''ratio'', PFloat NaN), (''timestamp'', PInt 1)])) =
     json_dumps (normalize (PDict [(''ratio'', PFloat NaN)])) \<and>
   compare_dicts (PDict [(''ratio'', PFloat NaN), (''timestamp'', PInt 1)])
                 (PDict [(''ratio'', PFloat NaN)]) =
     Inr ''Success: Python and Java responses match after key normalization.''"
proof -
  have 1: "\<not> py_eq (normalize (PDict [(''ratio'', PFloat NaN), (''timestamp'', PInt 1)]))
                   (normalize (PDict [(''ratio'', PFloat NaN)]))"
    by code_simp
  have 2: "json_dumps (normalize (PDict [(''ratio'', PFloat NaN), (''timestamp'', PInt 1)])) =
           json_dumps (normalize (PDict [(''ratio'', PFloat NaN)]))"
    by code_simp
  from 1 2 fallback_reports_equivalence [OF 1 2] show ?thesis by blast
qed

subsection \<open>Ignored and private fields do not count\<close>

lemma ignored_field_dropped:
  "ignored_field k \<Longrightarrow> \<not> (\<not> startswith k ''_'' \<and> k \<notin> ignore_keys)"
  by (cases k) (auto simp: ignored_field_def ignore_keys_def)

lemma ignored_edit_normalize:
  "(ignored_edit p p' \<longrightarrow> normalize p = normalize p') \<and>
   (ignored_edit_items a b \<longrightarrow>
      map (\<lambda>(k, v). (k, normalize v)) (filter (\<lambda>(k, v). \<not> startswith k ''_'' \<and> k \<notin> ignore_keys) a) =
      map (\<lambda>(k, v). (k, normalize v)) (filter (\<lambda>(k, v). \<not> startswith k ''_'' \<and> k \<notin> ignore_keys) b))"
proof (induction rule: ignored_edit_ignored_edit_items.induct)
  case (edit_in_list xs ys)
  then have "map normalize xs = map normalize ys"
    by (induction xs ys rule: list_all2_induct) auto
  then show ?case by simp
next
  case (edit_mutated k a b v w)
  then show ?case using ignored_field_dropped [of k] by auto
next
  case (edit_removed k a b v)
  then show ?case using ignored_field_dropped [of k] by auto
next
  case (edit_added k a b w)
  then show ?case using ignored_field_dropped [of k] by auto
qed auto

lemma compare_dicts_same_normal_form:
  "normalize p = normalize p' \<Longrightarrow> \<exists>line. compare_dicts p p' = Inr line"
  by (simp add: compare_dicts_def Let_def)

text \<open>
  Claim C5. Comparing a payload with itself reports equivalence, and so does comparing it
  with any payload that differs from it only under ignored or private fields: one of
  the two success lines is printed and the run goes on.
\<close>

theorem ignored_fields_never_matter:
  "(\<exists>line. compare_dicts p p = Inr line) \<and>
   (ignored_edit p p' \<longrightarrow> (\<exists>line. compare_dicts p p' = Inr line))"
  using ignored_edit_normalize [of p p'] compare_dicts_same_normal_form [of p p']
    compare_dicts_same_normal_form [of p p]
  by blast

theorem ignored_fields_never_matter_witness:
  "ignored_edit
     (PDict [(''name'', PStr ''x''), (''timestamp'', PInt 5), (''_raw'', PNone),
             (''members'', PList [PDict [(''tag'', PStr ''a''), (''builderBaseRank'', PInt 3)]])])
     (PDict [(''name'', PStr ''x''), (''timestamp'', PInt 6), (''status_code'', PInt 200),
             (''members'', PList [PDict [(''tag'', PStr ''a'')]])]) \<and>
   (\<exists>line. compare_dicts
     (PDict [(''name'', PStr ''x''), (''timestamp'', PInt 5), (''_raw'', PNone),
             (''members'', PList [PDict [(''tag'', PStr ''a''), (''builderBaseRank'', PInt 3)]])])
     (PDict [(''name'', PStr ''x''), (''timestamp'', PInt 6), (''status_code'', PInt 200),
             (''members'', PList [PDict [(''tag'', PStr ''a'')]])]) = Inr line)"
proof -
  have f: "ignored_field ''timestamp''" "ignored_field ''_raw''" "ignored_field ''status_code''"
    "ignored_field ''builderBaseRank''"
    by (simp_all add: ignored_field_def)
  have inner: "ignored_edit (PDict [(''tag'', PStr ''a''), (''builderBaseRank'', PInt 3)])
                  (PDict [(''tag'', PStr ''a'')])"
    by (intro edit_in_dict edit_kept edit_removed edit_no_items edit_same f)
  have e: "ignored_edit
     (PDict [(''name'', PStr ''x''), (''timestamp'', PInt 5), (''_raw'', PNone),
             (''members'', PList [PDict [(''tag'', PStr ''a''), (''builderBaseRank'', PInt 3)]])])
     (PDict [(''name'', PStr ''x''), (''timestamp'', PInt 6), (''status_code'', PInt 200),
             (''members'', PList [PDict [(''tag'', PStr ''a'')]])])"
    apply (rule edit_in_dict)
    apply (rule edit_kept [OF edit_same])
    apply (rule edit_mutated [OF f(1)])
    apply (rule edit_removed [OF f(2)])
    apply (rule edit_added [OF f(3)])
    apply (rule edit_kept [OF _ edit_no_items])
    apply (rule edit_in_list)
    apply (simp add: inner)
    done
  with ignored_fields_never_matter show ?thesis by blast
qed

subsection \<open>Order of sequences and of keys\<close>

lemma sort_key_determined:
  assumes "distinct (map fst xs)" "distinct (map fst ys)" "set xs = set ys"
  shows "sort_key fst xs = sort_key fst ys"
proof (rule map_sorted_distinct_set_unique [where f = fst])
  show "inj_on fst (set (sort_key fst xs) \<union> set (sort_key fst ys))"
    using assms by (simp add: distinct_map)
  show "distinct (map fst (sort_key fst xs))" "distinct (map fst (sort_key fst ys))"
    using assms by (simp_all add: distinct_map)
  show "set (sort_key fst xs) = set (sort_key fst ys)"
    using assms by simp
qed simp_all

lemma key_order_irrelevant:
  assumes "distinct (map fst a)" "distinct (map fst b)" "set a = set b"
  shows "\<exists>line. compare_dicts (PDict a) (PDict b) = Inr line"
proof -
  let ?n = "\<lambda>kvs. map (\<lambda>(k, v). (k, normalize v))
                     (filter (\<lambda>(k, v). \<not> startswith k ''_'' \<and> k \<notin> ignore_keys) kvs)"
  have "set (?n a) = set (?n b)"
    using assms(3) by simp
  then have "sort_key fst (?n a) = sort_key fst (?n b)"
    using assms(1,2) by (intro sort_key_determined distinct_normalize_items)
  then have "json_dumps (normalize (PDict a)) = json_dumps (normalize (PDict b))"
    by (simp only: normalize.simps json_dumps.simps)
  then show ?thesis
    by (simp add: compare_dicts_def Let_def)
qed

text \<open>
  Claim C7. The order of a sequence counts and the order of the keys of a mapping does
  not: comparing \<^verbatim>\<open>[1, 2]\<close> with \<^verbatim>\<open>[2, 1]\<close> ends the run with a mismatch message, and
  comparing \<^verbatim>\<open>{"a": 1, "b": 2}\<close> with \<^verbatim>\<open>{"b": 2, "a": 1}\<close> reports equivalence. More
  generally, two mappings with the same items in any two orders are reported
  equivalent.
\<close>

theorem sequence_order_matters_key_order_does_not:
  "compare_dicts (PList [PInt 1, PInt 2]) (PList [PInt 2, PInt 1]) =
     Inl (SystemExit ''Mismatch detected between Python and Java payloads: root[0]: value mismatch 1 vs 2'') \<and>
   compare_dicts (PDict [(''a'', PInt 1), (''b'', PInt 2)]) (PDict [(''b'', PInt 2), (''a'', PInt 1)]) =
     Inr ''Success: Python and Java responses match byte-for-byte.'' \<and>
   (distinct (map fst a) \<and> distinct (map fst b) \<and> set a = set b \<longrightarrow>
      (\<exists>line. compare_dicts (PDict a) (PDict b) = Inr line))"
proof -
  have "compare_dicts (PList [PInt 1, PInt 2]) (PList [PInt 2, PInt 1]) =
     Inl (SystemExit ''Mismatch detected between Python and Java payloads: root[0]: value mismatch 1 vs 2'')"
    by code_simp
  moreover have "compare_dicts (PDict [(''a'', PInt 1), (''b'', PInt 2)])
                   (PDict [(''b'', PInt 2), (''a'', PInt 1)]) =
     Inr ''Success: Python and Java responses match byte-for-byte.''"
    by code_simp
  ultimately show ?thesis
    using key_order_irrelevant [of a b] by blast
qed

theorem sequence_order_matters_key_order_does_not_witness:
  "distinct (map fst [(''a'', PInt 1), (''b'', PFloat NaN)]) \<and>
   distinct (map fst [(''b'', PFloat NaN), (''a'', PInt 1)]) \<and>
   set [(''a'', PInt 1), (''b'', PFloat NaN)] = set [(''b'', PFloat NaN), (''a'', PInt 1)] \<and>
   (\<exists>line. compare_dicts (PDict [(''a'', PInt 1), (''b'', PFloat NaN)])
                          (PDict [(''b'', PFloat NaN), (''a'', PInt 1)]) = Inr line)"
proof -
  have h: "distinct (map fst [(''a'', PInt 1), (''b'', PFloat NaN)]) \<and>
           distinct (map fst [(''b'', PFloat NaN), (''a'', PInt 1)]) \<and>
           set [(''a'', PInt 1), (''b'', PFloat NaN)] = set [(''b'', PFloat NaN), (''a'', PInt 1)]"
    by auto
  with sequence_order_matters_key_order_does_not
         [of "[(''a'', PInt 1), (''b'', PFloat NaN)]" "[(''b'', PFloat NaN), (''a'', PInt 1)]"]
  show ?thesis by blast
qed

subsection \<open>An int and the float of the same value\<close>

lemma float_eq_refl: "f \<noteq> NaN \<Longrightarrow> float_eq f f"
  by (cases f) auto

lemma dict_eq_pointwise:
  "list_all2 (\<lambda>kv kw. fst kv = fst kw \<and> py_eq (snd kv) (snd kw)) a b \<Longrightarrow>
   distinct (map fst a) \<Longrightarrow>
   list_all (\<lambda>(k, v). case map_of b k of None \<Rightarrow> False | Some w \<Rightarrow> py_eq v w) a"
proof (induction a b rule: list_all2_induct)
  case Nil
  then show ?case by simp
next
  case (Cons kv a kw b)
  have "list_all (\<lambda>(k, v). case map_of (kw # b) k of None \<Rightarrow> False | Some w \<Rightarrow> py_eq v w) a
        = list_all (\<lambda>(k, v). case map_of b k of None \<Rightarrow> False | Some w \<Rightarrow> py_eq v w) a"
  proof (intro list.pred_cong refl)
    fix z assume "z \<in> set a"
    with Cons.prems Cons.hyps(1) have "fst z \<noteq> fst kw"
      by (auto simp: image_iff)
    then show "(case z of (k, v) \<Rightarrow>
                  case map_of (kw # b) k of None \<Rightarrow> False | Some w \<Rightarrow> py_eq v w) =
               (case z of (k, v) \<Rightarrow>
                  case map_of b k of None \<Rightarrow> False | Some w \<Rightarrow> py_eq v w)"
      by (cases z, cases kw) auto
  qed
  with Cons show ?case by (cases kv, cases kw) auto
qed

lemma normalize_items_pointwise:
  "list_all2 (\<lambda>kv kw. fst kv = fst kw \<and> py_eq (normalize (snd kv)) (normalize (snd kw))) a b \<Longrightarrow>
   list_all2 (\<lambda>kv kw. fst kv = fst kw \<and> py_eq (snd kv) (snd kw))
     (map (\<lambda>(k, v). (k, normalize v)) (filter (\<lambda>(k, v). \<not> startswith k ''_'' \<and> k \<notin> ignore_keys) a))
     (map (\<lambda>(k, v). (k, normalize v)) (filter (\<lambda>(k, v). \<not> startswith k ''_'' \<and> k \<notin> ignore_keys) b))"
  by (induction a b rule: list_all2_induct) auto

lemma num_drift_py_eq:
  "(num_drift p q \<longrightarrow> py_eq (normalize p) (normalize q)) \<and>
   (num_drift_items a b \<longrightarrow>
      list_all2 (\<lambda>kv kw. fst kv = fst kw \<and> py_eq (normalize (snd kv)) (normalize (snd kw))) a b)"
proof (induction rule: num_drift_num_drift_items.induct)
  case (drift_in_list xs ys)
  then have "list_all2 py_eq (map normalize xs) (map normalize ys)"
    by (induction xs ys rule: list_all2_induct) auto
  then show ?case by simp
next
  case (drift_in_dict a b)
  let ?na = "map (\<lambda>(k, v). (k, normalize v)) (filter (\<lambda>(k, v). \<not> startswith k ''_'' \<and> k \<notin> ignore_keys) a)"
  let ?nb = "map (\<lambda>(k, v). (k, normalize v)) (filter (\<lambda>(k, v). \<not> startswith k ''_'' \<and> k \<notin> ignore_keys) b)"
  have rel: "list_all2 (\<lambda>kv kw. fst kv = fst kw \<and> py_eq (snd kv) (snd kw)) ?na ?nb"
    using drift_in_dict.IH by (rule normalize_items_pointwise)
  then have len: "length ?na = length ?nb"
    by (rule list_all2_lengthD)
  have "list_all (\<lambda>(k, v). case map_of ?nb k of None \<Rightarrow> False | Some w \<Rightarrow> py_eq v w) ?na"
    using rel distinct_normalize_items [OF drift_in_dict.hyps(2)] by (rule dict_eq_pointwise)
  with len show ?case by (simp only: normalize.simps py_eq.simps)
qed (auto simp: float_eq_refl)

text \<open>
  Claim C8, as amended. For payloads that differ only in that a number is an \<^verbatim>\<open>int\<close> on
  one side and the \<^verbatim>\<open>float\<close> of the same value on the other, the first tier does not
  fail: \<^verbatim>\<open>==\<close> compares an \<^verbatim>\<open>int\<close> and a \<^verbatim>\<open>float\<close> by value, so the normalized
  payloads are equal and the comparator prints the first success line. The canonical
  texts are not consulted.
\<close>

theorem int_float_drift_is_equal:
  "num_drift left right \<Longrightarrow>
   py_eq (normalize left) (normalize right) \<and>
   compare_dicts left right = Inr ''Success: Python and Java responses match byte-for-byte.''"
  using num_drift_py_eq [of left right] by (simp add: compare_dicts_def Let_def)

theorem int_float_drift_is_equal_witness:
  "num_drift (PDict [(''clanLevel'', PInt 1), (''members'', PList [PFloat (Finite False (2 ^ 52) (- 52))])])
             (PDict [(''clanLevel'', PFloat (Finite False (2 ^ 52) (- 52))), (''members'', PList [PInt 1])]) \<and>
   compare_dicts
     (PDict [(''clanLevel'', PInt 1), (''members'', PList [PFloat (Finite False (2 ^ 52) (- 52))])])
     (PDict [(''clanLevel'', PFloat (Finite False (2 ^ 52) (- 52))), (''members'', PList [PInt 1])]) =
   Inr ''Success: Python and Java responses match byte-for-byte.''"
proof -
  have v: "float_value False (2 ^ 52) (- 52) = of_int 1"
    by (simp add: float_value_def mag_def pow2_def)
  have d: "num_drift (PDict [(''clanLevel'', PInt 1), (''members'', PList [PFloat (Finite False (2 ^ 52) (- 52))])])
             (PDict [(''clanLevel'', PFloat (Finite False (2 ^ 52) (- 52))), (''members'', PList [PInt 1])])"
    apply (rule drift_in_dict)
     apply (rule drift_item [OF drift_int_float [OF v]])
     apply (rule drift_item [OF _ drift_no_items])
     apply (rule drift_in_list)
     apply (intro list.rel_intros drift_float_int [OF v])
    apply simp
    done
  with int_float_drift_is_equal [OF d] show ?thesis by simp
qed

text \<open>
  Claim C8 as it was stated fails on \<^verbatim>\<open>{"a": 1}\<close> and \<^verbatim>\<open>{"a": 1.0}\<close>: the first tier
  succeeds, and the canonical texts \<^verbatim>\<open>{"a": 1}\<close> and \<^verbatim>\<open>{"a": 1.0}\<close> are not the same.
\<close>

theorem int_float_example:
  "py_eq (normalize (PDict [(''a'', PInt 1)]))
         (normalize (PDict [(''a'', PFloat (Finite False (2 ^ 52) (- 52)))])) \<and>
   json_dumps (normalize (PDict [(''a'', PInt 1)])) = [CHR ''{'', CHR 0x22, CHR ''a'', CHR 0x22] @ '': 1}'' \<and>
   json_dumps (normalize (PDict [(''a'', PFloat (Finite False (2 ^ 52) (- 52)))])) = [CHR ''{'', CHR 0x22, CHR ''a'', CHR 0x22] @ '': 1.0}'' \<and>
   compare_dicts (PDict [(''a'', PInt 1)]) (PDict [(''a'', PFloat (Finite False (2 ^ 52) (- 52)))]) =
     Inr ''Success: Python and Java responses match byte-for-byte.''"
  by code_simp

section \<open>Locating the first difference\<close>

lemma find_difference_keys_first:
  "find_difference_keys x y path keys =
     (case filter (\<lambda>d. d \<noteq> [])
             (map (\<lambda>key. case map_of x key of
                             None \<Rightarrow> path @ ''.'' @ key @ '': missing from Python payload''
                           | Some xv \<Rightarrow>
                               (case map_of y key of
                                  None \<Rightarrow> path @ ''.'' @ key @ '': missing from Java payload''
                                | Some yv \<Rightarrow> find_difference xv yv (path @ ''.'' @ key)))
                keys) of
        [] \<Rightarrow> []
      | d # ds \<Rightarrow> d)"
  by (induction keys) (auto simp: find_difference.simps Let_def split: option.splits)

text \<open>
  Claim C3. On two mappings the walk goes through the sorted union of the keys of both
  sides. A key that the left side lacks is reported as missing from the Python payload
  (the left one), a key that the right side lacks as missing from the Java payload (the
  right one), and any other key gives what the walk finds under it; the report for the
  first key in this order that has one is the result. So comparing
  \<^verbatim>\<open>{"a": {"x": 1, "y": 2}}\<close> with \<^verbatim>\<open>{"a": {"x": 1, "y": 3}}\<close> reports a value mismatch
  \<^verbatim>\<open>2 vs 3\<close> at \<^verbatim>\<open>root.a.y\<close>, and comparing \<^verbatim>\<open>{"a": 1}\<close> with \<^verbatim>\<open>{}\<close> reports
  \<^verbatim>\<open>root.a\<close> as missing from the right payload.
\<close>

theorem first_difference_in_key_order:
  "find_difference (PDict x) (PDict y) path =
     (case filter (\<lambda>d. d \<noteq> [])
             (map (\<lambda>key. case map_of x key of
                             None \<Rightarrow> path @ ''.'' @ key @ '': missing from Python payload''
                           | Some xv \<Rightarrow>
                               (case map_of y key of
                                  None \<Rightarrow> path @ ''.'' @ key @ '': missing from Java payload''
                                | Some yv \<Rightarrow> find_difference xv yv (path @ ''.'' @ key)))
                (sorted_list_of_set (set (map fst x) \<union> set (map fst y)))) of
        [] \<Rightarrow> []
      | d # ds \<Rightarrow> d) \<and>
   compare_dicts (PDict [(''a'', PDict [(''x'', PInt 1), (''y'', PInt 2)])])
                 (PDict [(''a'', PDict [(''x'', PInt 1), (''y'', PInt 3)])]) =
     Inl (SystemExit ''Mismatch detected between Python and Java payloads: root.a.y: value mismatch 2 vs 3'') \<and>
   compare_dicts (PDict [(''a'', PInt 1)]) (PDict []) =
     Inl (SystemExit ''Mismatch detected between Python and Java payloads: root.a: missing from Java payload'')"
proof -
  have 1: "find_difference (PDict x) (PDict y) path =
        find_difference_keys x y path (sorted_list_of_set (set (map fst x) \<union> set (map fst y)))"
    by (simp add: find_difference.simps(1))
  have 2: "compare_dicts (PDict [(''a'', PDict [(''x'', PInt 1), (''y'', PInt 2)])])
                 (PDict [(''a'', PDict [(''x'', PInt 1), (''y'', PInt 3)])]) =
     Inl (SystemExit ''Mismatch detected between Python and Java payloads: root.a.y: value mismatch 2 vs 3'')"
    by code_simp
  have 3: "compare_dicts (PDict [(''a'', PInt 1)]) (PDict []) =
     Inl (SystemExit ''Mismatch detected between Python and Java payloads: root.a: missing from Java payload'')"
    by code_simp
  show ?thesis
    unfolding 1 find_difference_keys_first using 2 3 by simp
qed

text \<open>
  Claim C4. Where the two values are of different types the walk reports a type mismatch
  at the current path, whatever the values hold: nothing below them is looked at. So
  comparing \<^verbatim>\<open>{"a": 1}\<close> with \<^verbatim>\<open>{"a": [1]}\<close> reports a type mismatch at \<^verbatim>\<open>root.a\<close>.
\<close>

theorem type_mismatch_stops_descent:
  "(py_type a \<noteq> py_type b \<longrightarrow>
      find_difference a b path =
        path @ '': type mismatch '' @ type_name (py_type a) @ '' vs '' @ type_name (py_type b)) \<and>
   compare_dicts (PDict [(''a'', PInt 1)]) (PDict [(''a'', PList [PInt 1])]) =
     Inl (SystemExit ''Mismatch detected between Python and Java payloads: root.a: type mismatch int vs list'')"
proof -
  have "compare_dicts (PDict [(''a'', PInt 1)]) (PDict [(''a'', PList [PInt 1])]) =
     Inl (SystemExit ''Mismatch detected between Python and Java payloads: root.a: type mismatch int vs list'')"
    by code_simp
  then show ?thesis by (simp add: find_difference.simps(1))
qed

theorem type_mismatch_stops_descent_witness:
  "py_type (PInt 1) \<noteq> py_type (PList [PInt 1, PDict []]) \<and>
   find_difference (PInt 1) (PList [PInt 1, PDict []]) ''root.a'' = ''root.a: type mismatch int vs list''"
  using type_mismatch_stops_descent [of "PInt 1" "PList [PInt 1, PDict []]" "''root.a''"]
  by simp

section \<open>The Java client and the environment\<close>

text \<open>
  An exception that \<^verbatim>\<open>subprocess.run\<close> raises, and one other than
  \<^verbatim>\<open>JSONDecodeError\<close> that \<^verbatim>\<open>json.loads\<close> raises, leaves the function as it is.
\<close>

lemma fetch_java_clan_propagates:
  "(run (gradle_command os_name joinpath tag repo_root) env repo_root = Inl raised \<longrightarrow>
      fetch_java_clan run json_loads os_name joinpath tag env repo_root =
        ([], Inl (Uncaught raised))) \<and>
   (run (gradle_command os_name joinpath tag repo_root) env repo_root = Inr result \<and>
    returncode result = 0 \<and> strip (stdout result) \<noteq> [] \<and>
    json_loads (strip (stdout result)) = Inl (OtherException cls msg) \<longrightarrow>
      fetch_java_clan run json_loads os_name joinpath tag env repo_root =
        ([], Inl (Uncaught (OtherException cls msg))))"
  by (simp add: fetch_java_clan_def Let_def)




text \<open>
  Claim C10. A required variable that is set to the empty string is treated as one that
  is not set: both end the run with the message that names the variable. Any other value
  is returned as it is.
\<close>

theorem require_env_empty_as_missing:
  "((environ name = None \<or> environ name = Some []) \<longrightarrow>
      require_env environ name =
        Inl (SystemExit (''Missing required environment variable: '' @ name))) \<and>
   (environ name = Some v \<and> v \<noteq> [] \<longrightarrow> require_env environ name = Inr v)"
  by (auto simp: require_env_def)

theorem require_env_empty_as_missing_witness:
  "[''COC_EMAIL'' \<mapsto> ''a@b.c'', ''COC_PASSWORD'' \<mapsto> ''''] ''COC_CLAN_TAG'' = None \<and>
   require_env [''COC_EMAIL'' \<mapsto> ''a@b.c'', ''COC_PASSWORD'' \<mapsto> ''''] ''COC_CLAN_TAG'' =
     Inl (SystemExit ''Missing required environment variable: COC_CLAN_TAG'') \<and>
   [''COC_EMAIL'' \<mapsto> ''a@b.c'', ''COC_PASSWORD'' \<mapsto> ''''] ''COC_PASSWORD'' = Some [] \<and>
   require_env [''COC_EMAIL'' \<mapsto> ''a@b.c'', ''COC_PASSWORD'' \<mapsto> ''''] ''COC_PASSWORD'' =
     Inl (SystemExit ''Missing required environment variable: COC_PASSWORD'') \<and>
   [''COC_EMAIL'' \<mapsto> ''a@b.c'', ''COC_PASSWORD'' \<mapsto> ''''] ''COC_EMAIL'' = Some ''a@b.c'' \<and>
   require_env [''COC_EMAIL'' \<mapsto> ''a@b.c'', ''COC_PASSWORD'' \<mapsto> ''''] ''COC_EMAIL'' = Inr ''a@b.c''"
  using require_env_empty_as_missing [of "[''COC_EMAIL'' \<mapsto> ''a@b.c'', ''COC_PASSWORD'' \<mapsto> '''']" "''COC_CLAN_TAG''"]
    require_env_empty_as_missing [of "[''COC_EMAIL'' \<mapsto> ''a@b.c'', ''COC_PASSWORD'' \<mapsto> '''']" "''COC_PASSWORD''"]
    require_env_empty_as_missing [of "[''COC_EMAIL'' \<mapsto> ''a@b.c'', ''COC_PASSWORD'' \<mapsto> '''']" "''COC_EMAIL''" "''a@b.c''"]
  by simp

end
